theory Spec2Isabelle
  imports Main "HOL-Library.Sublist"
begin

section \<open>Python values used by the two functions\<close>

text \<open>
  A Python \<open>str\<close> is a sequence of Unicode code points, and \<open>len\<close>, slicing and
  \<open>strip\<close> count code points. A string is therefore modelled as a list of code points
  (natural numbers), not as a list of bytes. \<open>py\<close> turns a literal of the source into
  that representation.
\<close>

type_synonym pychar = nat
type_synonym pystr = "pychar list"

definition py :: "string \<Rightarrow> pystr" where
  "py s = map of_char s"

definition NL :: pychar where
  "NL = 10"

text \<open>\<open>str(n)\<close> for an integer: decimal digits, with a minus sign when negative.\<close>

fun str_nat :: "nat \<Rightarrow> pystr" where
  "str_nat n = (if n < 10 then [48 + n] else str_nat (n div 10) @ [48 + n mod 10])"

declare str_nat.simps [simp del]

definition str_int :: "int \<Rightarrow> pystr" where
  "str_int i = (if i < 0 then 45 # str_nat (nat (- i)) else str_nat (nat i))"

text \<open>
  The code points that \<open>str.strip()\<close> removes when called without an argument
  (the ones for which \<open>str.isspace\<close> holds).
\<close>

definition is_space :: "pychar \<Rightarrow> bool" where
  "is_space c =
     ((9 \<le> c \<and> c \<le> 13) \<or> (28 \<le> c \<and> c \<le> 32) \<or> c = 133 \<or> c = 160 \<or> c = 5760
      \<or> (8192 \<le> c \<and> c \<le> 8202) \<or> c = 8232 \<or> c = 8233 \<or> c = 8239 \<or> c = 8287
      \<or> c = 12288)"

definition strip :: "pystr \<Rightarrow> pystr" where
  "strip s = rev (dropWhile is_space (rev (dropWhile is_space s)))"

text \<open>\<open>sep.join(parts)\<close>.\<close>

fun join :: "pystr \<Rightarrow> pystr list \<Rightarrow> pystr" where
  "join sep [] = []"
| "join sep [x] = x"
| "join sep (x # y # ys) = x @ sep @ join sep (y # ys)"

text \<open>
  An exception is its class together with the text \<open>str(e)\<close> gives. \<open>ImportError\<close>
  stands for the class and its subclasses (\<open>ModuleNotFoundError\<close>); \<open>OtherException\<close>
  carries the name of any other subclass of \<open>Exception\<close> (\<open>OSError\<close> among them).
  \<open>KeyboardInterrupt\<close>, \<open>CancelledError\<close> (of \<open>asyncio\<close>) and
  \<open>OtherBaseException\<close> derive from \<open>BaseException\<close> without deriving from
  \<open>Exception\<close>: a clause \<open>except Exception\<close> does not catch them.
\<close>

datatype exn_class =
    FileNotFoundError | ImportError | IndexError | KeyError | TypeError | RuntimeError
  | OtherException pystr
  | KeyboardInterrupt | CancelledError | OtherBaseException pystr

datatype exn = Exn (cls: exn_class) (msg: pystr)

text \<open>Whether \<open>except Exception\<close> catches an exception of the class.\<close>

fun is_exception :: "exn_class \<Rightarrow> bool" where
  "is_exception KeyboardInterrupt = False"
| "is_exception CancelledError = False"
| "is_exception (OtherBaseException _) = False"
| "is_exception _ = True"

text \<open>
  What the two functions do to the outside world, in the order they do it: opening and
  closing the document, reading a page's text, invoking the language model.
\<close>

datatype event = DocOpened pystr | PageRead nat | DocClosed | LLMInvoked pystr

section \<open>llm\_summarizer\_function.py\<close>

record LLMSummarizerConfig =
  description :: pystr
  llm_name :: pystr
  max_summary_length :: int
  include_key_points :: bool
  summary_style :: pystr

text \<open>The dictionary literal \<open>style_instructions\<close>, in the order of the source.\<close>

definition style_instructions :: "(pystr \<times> pystr) list" where
  "style_instructions =
     [(py ''brief'', py ''Create a brief, concise summary in 2-3 sentences.''),
      (py ''comprehensive'',
         py ''Create a comprehensive summary that captures all major points.''),
      (py ''detailed'',
         py ''Create a detailed summary with thorough analysis of all key aspects.'')]"

text \<open>\<open>d[k]\<close> raises \<open>KeyError\<close> on a missing key; \<open>d.get(k, default)\<close> does not.\<close>

definition dict_index :: "(pystr \<times> pystr) list \<Rightarrow> pystr \<Rightarrow> exn + pystr" where
  "dict_index d k = (case map_of d k of None \<Rightarrow> Inl (Exn KeyError k) | Some v \<Rightarrow> Inr v)"

definition dict_get :: "(pystr \<times> pystr) list \<Rightarrow> pystr \<Rightarrow> pystr \<Rightarrow> pystr" where
  "dict_get d k dflt = (case map_of d k of None \<Rightarrow> dflt | Some v \<Rightarrow> v)"

text \<open>
  Lines 80 to 83: the default argument \<open>style_instructions["comprehensive"]\<close> is
  evaluated before \<open>get\<close> is called.
\<close>

definition style_instruction :: "LLMSummarizerConfig \<Rightarrow> exn + pystr" where
  "style_instruction config =
     (case dict_index style_instructions (py ''comprehensive'') of
        Inl e \<Rightarrow> Inl e
      | Inr dflt \<Rightarrow> Inr (dict_get style_instructions (summary_style config) dflt))"

text \<open>Lines 85 to 87.\<close>

definition key_points_instruction :: "LLMSummarizerConfig \<Rightarrow> pystr" where
  "key_points_instruction config =
     (if include_key_points config
      then [NL, NL] @ py ''After the summary, provide 5-7 key points as bullet points.''
      else [])"

text \<open>The replacement field of lines 100 to 102 (\<open>chr(10)\<close> is the newline).\<close>

definition key_points_format :: "LLMSummarizerConfig \<Rightarrow> pystr" where
  "key_points_format config =
     (if include_key_points config
      then py ''## Key Points'' @ [NL] @ py ''- [Point 1]'' @ [NL] @ py ''- [Point 2]''
           @ [NL] @ py ''...''
      else [])"

text \<open>
  The f-string of lines 89 to 110, cut where the text is embedded. \<open>prompt_head\<close> is
  everything up to and including the line \<open>---\<close> before the text.
\<close>

definition prompt_head :: "LLMSummarizerConfig \<Rightarrow> pystr \<Rightarrow> pystr" where
  "prompt_head config style =
     py ''You are an expert at analyzing and summarizing documents.'' @ [NL]
     @ [NL]
     @ py ''Please analyze the following text and provide a summary.'' @ [NL]
     @ [NL]
     @ style @ [NL]
     @ py ''Target length: approximately '' @ str_int (max_summary_length config)
       @ py '' words.'' @ key_points_instruction config @ [NL]
     @ [NL]
     @ py ''Format your response as:'' @ [NL]
     @ [NL]
     @ py ''## Summary'' @ [NL]
     @ py ''[Your summary here]'' @ [NL]
     @ key_points_format config @ [NL]
     @ [NL]
     @ py ''Text to summarize:'' @ [NL]
     @ py ''---'' @ [NL]"

text \<open>Line 106, after the replacement field \<open>{text[:10000]}\<close>.\<close>

definition excerpt_line_rest :: pystr where
  "excerpt_line_rest = py ''  # Limit input to avoid token limits'' @ [NL]"

text \<open>Line 107: \<open>{"..." if len(text) > 10000 else ""}\<close>.\<close>

definition truncation_marker :: "pystr \<Rightarrow> pystr" where
  "truncation_marker text = (if length text > 10000 then py ''...'' else [])"

text \<open>Lines 107 (its newline) to 110.\<close>

definition prompt_tail :: pystr where
  "prompt_tail = [NL] @ py ''---'' @ [NL] @ [NL] @ py ''Summary:''"

definition build_prompt :: "LLMSummarizerConfig \<Rightarrow> pystr \<Rightarrow> exn + pystr" where
  "build_prompt config text =
     (case style_instruction config of
        Inl e \<Rightarrow> Inl e
      | Inr style \<Rightarrow>
          Inr (prompt_head config style @ take 10000 text @ excerpt_line_rest
               @ truncation_marker text @ prompt_tail))"

text \<open>
  The value \<open>llm.ainvoke\<close> returns is not typed by the source. What the source asks of
  it is whether it has an attribute \<open>content\<close> (\<open>content_attr\<close>, \<open>None\<close> when
  \<open>hasattr\<close> is false) and what \<open>str\<close> makes of it (\<open>str_repr\<close>; for a response
  that is itself a string, the string). The attribute's value is not typed either.
\<close>

datatype pyval = VStr pystr | VNone | VList "pyval list"

datatype response = Response (content_attr: "pyval option") (str_repr: pystr)

text \<open>Lines 117 to 121.\<close>

definition extract_content :: "response \<Rightarrow> pyval" where
  "extract_content r = (case content_attr r of Some v \<Rightarrow> v | None \<Rightarrow> VStr (str_repr r))"

text \<open>\<open>len(summary)\<close> of line 123.\<close>

definition py_len :: "pyval \<Rightarrow> exn + nat" where
  "py_len v =
     (case v of
        VStr s \<Rightarrow> Inr (length s)
      | VList vs \<Rightarrow> Inr (length vs)
      | VNone \<Rightarrow> Inl (Exn TypeError (py ''object of type 'NoneType' has no len()'')))"

text \<open>The body of the \<open>try\<close> of \<open>summarize_text\<close>, lines 73 to 124.\<close>

definition summarize_text_try ::
  "LLMSummarizerConfig \<Rightarrow> (pystr \<Rightarrow> exn + response) \<Rightarrow> pystr \<Rightarrow> (exn + pyval) \<times> event list"
where
  "summarize_text_try config ainvoke text =
     (case build_prompt config text of
        Inl e \<Rightarrow> (Inl e, [])
      | Inr prompt \<Rightarrow>
          (case ainvoke prompt of
             Inl e \<Rightarrow> (Inl e, [LLMInvoked prompt])
           | Inr response \<Rightarrow>
               (let summary = extract_content response in
                case py_len summary of
                  Inl e \<Rightarrow> (Inl e, [LLMInvoked prompt])
                | Inr _ \<Rightarrow> (Inr summary, [LLMInvoked prompt]))))"

text \<open>
  Lines 126 to 129: every \<open>Exception\<close> leaves as a \<open>RuntimeError\<close>; what
  \<open>except Exception\<close> does not catch leaves as it is.
\<close>

definition summarize_text ::
  "LLMSummarizerConfig \<Rightarrow> (pystr \<Rightarrow> exn + response) \<Rightarrow> pystr \<Rightarrow> (exn + pyval) \<times> event list"
where
  "summarize_text config ainvoke text =
     (case summarize_text_try config ainvoke text of
        (Inl e, evs) \<Rightarrow>
          (if is_exception (cls e)
           then (Inl (Exn RuntimeError (py ''Error generating summary: '' @ msg e)), evs)
           else (Inl e, evs))
      | (Inr summary, evs) \<Rightarrow> (Inr summary, evs))"

section \<open>pdf\_reader\_function.py\<close>

text \<open>
  The record field for the reader's \<open>description\<close> is named
  \<open>reader_description\<close>, the summarizer's record having taken the name.
  \<open>max_pages\<close> is \<open>int | None\<close>: any integer, or \<open>None\<close>.
\<close>

record PDFReaderConfig =
  reader_description :: pystr
  max_pages :: "int option"

text \<open>
  A page is what \<open>doc[page_num]\<close> followed by \<open>page.get_text()\<close> gives: the page's
  text, or the exception PyMuPDF raises on the way. A document is its pages.
\<close>

type_synonym page = "exn + pystr"
type_synonym document = "page list"

text \<open>
  What \<open>read_pdf\<close> finds outside: whether \<open>import fitz\<close> succeeds, what
  \<open>Path(pdf_path).exists()\<close> gives (\<open>True\<close>, \<open>False\<close>, or the
  \<open>OSError\<close> it raises, for a name that is too long for instance), and what
  \<open>fitz.open(pdf_path)\<close> gives. \<open>exists()\<close> is \<open>True\<close> for whatever the
  path resolves to, a directory as well as a file.
\<close>

record environment =
  fitz_installed :: bool
  path_exists :: "pystr \<Rightarrow> exn + bool"
  fitz_open :: "pystr \<Rightarrow> exn + document"

text \<open>Line 73: \<open>config.max_pages or len(doc)\<close>; \<open>None\<close> and \<open>0\<close> are falsy.\<close>

definition max_pages_or_len :: "PDFReaderConfig \<Rightarrow> document \<Rightarrow> int" where
  "max_pages_or_len config doc =
     (case max_pages config of
        None \<Rightarrow> int (length doc)
      | Some k \<Rightarrow> if k = 0 then int (length doc) else k)"

text \<open>Line 75: \<open>range(min(len(doc), max_pages))\<close>, empty when the bound is negative.\<close>

definition page_range :: "PDFReaderConfig \<Rightarrow> document \<Rightarrow> nat list" where
  "page_range config doc = [0..<nat (min (int (length doc)) (max_pages_or_len config doc))]"

text \<open>Line 80: \<open>f"--- Page {page_num + 1} ---\n{text}"\<close>.\<close>

definition page_block :: "nat \<Rightarrow> pystr \<Rightarrow> pystr" where
  "page_block page_num text =
     py ''--- Page '' @ str_int (int page_num + 1) @ py '' ---'' @ [NL] @ text"

text \<open>
  The loop of lines 75 to 80 over the page numbers still to visit, with the list
  \<open>text_content\<close> built so far. An exception ends the loop at once.
\<close>

fun scan_pages :: "document \<Rightarrow> nat list \<Rightarrow> pystr list \<Rightarrow> (exn + pystr list) \<times> event list" where
  "scan_pages doc [] text_content = (Inr text_content, [])"
| "scan_pages doc (page_num # rest) text_content =
     (if page_num < length doc then
        (case doc ! page_num of
           Inl e \<Rightarrow> (Inl e, [PageRead page_num])
         | Inr text \<Rightarrow>
             (case scan_pages doc rest
                     (if strip text \<noteq> [] then text_content @ [page_block page_num text]
                      else text_content) of
                (r, evs) \<Rightarrow> (r, PageRead page_num # evs)))
      else (Inl (Exn IndexError (py ''page not in document'')), []))"

text \<open>Lines 72 to 80.\<close>

definition scan_document :: "PDFReaderConfig \<Rightarrow> document \<Rightarrow> (exn + pystr list) \<times> event list" where
  "scan_document config doc = scan_pages doc (page_range config doc) []"

definition no_text_message :: pystr where
  "no_text_message = py ''No text content found in PDF''"

text \<open>The body of the \<open>try\<close> of \<open>read_pdf\<close>, lines 58 to 91.\<close>

definition read_pdf_try ::
  "environment \<Rightarrow> PDFReaderConfig \<Rightarrow> pystr \<Rightarrow> (exn + pystr) \<times> event list"
where
  "read_pdf_try env config pdf_path =
     (if \<not> fitz_installed env then (Inl (Exn ImportError (py ''No module named fitz'')), [])
      else
        (case path_exists env pdf_path of
           Inl e \<Rightarrow> (Inl e, [])
         | Inr found \<Rightarrow>
             (if \<not> found
              then (Inl (Exn FileNotFoundError (py ''PDF file not found: '' @ pdf_path)), [])
              else
                (case fitz_open env pdf_path of
                   Inl e \<Rightarrow> (Inl e, [])
                 | Inr doc \<Rightarrow>
                     (case scan_document config doc of
                        (Inl e, evs) \<Rightarrow> (Inl e, DocOpened pdf_path # evs)
                      | (Inr text_content, evs) \<Rightarrow>
                          (let full_text = join [NL, NL] text_content in
                           (Inr (if strip full_text = [] then no_text_message
                                 else full_text),
                            DocOpened pdf_path # evs @ [DocClosed])))))))"

text \<open>
  Lines 93 to 101: an \<open>ImportError\<close> and every other \<open>Exception\<close> leave as a
  \<open>RuntimeError\<close>, each with its own message; what \<open>except Exception\<close> does
  not catch leaves as it is.
\<close>

definition read_pdf ::
  "environment \<Rightarrow> PDFReaderConfig \<Rightarrow> pystr \<Rightarrow> (exn + pystr) \<times> event list"
where
  "read_pdf env config pdf_path =
     (case read_pdf_try env config pdf_path of
        (Inl e, evs) \<Rightarrow>
          (if cls e = ImportError
           then (Inl (Exn RuntimeError
                   (py ''PyMuPDF not installed. Please install with: pip install PyMuPDF'')), evs)
           else if is_exception (cls e)
           then (Inl (Exn RuntimeError (py ''Error reading PDF: '' @ msg e)), evs)
           else (Inl e, evs))
      | (Inr full_text, evs) \<Rightarrow> (Inr full_text, evs))"

text \<open>The prompts sent to the language model, and the documents left open.\<close>

fun llm_prompts :: "event list \<Rightarrow> pystr list" where
  "llm_prompts [] = []"
| "llm_prompts (LLMInvoked p # evs) = p # llm_prompts evs"
| "llm_prompts (_ # evs) = llm_prompts evs"

fun open_documents :: "event list \<Rightarrow> nat \<Rightarrow> nat" where
  "open_documents [] n = n"
| "open_documents (DocOpened _ # evs) n = open_documents evs (Suc n)"
| "open_documents (DocClosed # evs) n = open_documents evs (n - 1)"
| "open_documents (_ # evs) n = open_documents evs n"

section \<open>Response shapes and example inputs\<close>

text \<open>
  The response shapes the specification lets the backend produce: a value that exposes a
  textual \<open>content\<close>, or a value without that attribute (a plain string among them).
\<close>

definition legal_response :: "response \<Rightarrow> bool" where
  "legal_response r =
     (case content_attr r of
        None \<Rightarrow> True
      | Some v \<Rightarrow> (case v of VStr _ \<Rightarrow> True | _ \<Rightarrow> False))"

text \<open>The field defaults of the two configuration classes.\<close>

definition default_config :: LLMSummarizerConfig where
  "default_config =
     \<lparr> description = py ''Generates a detailed summary of the provided text'',
       llm_name = py ''llm'', max_summary_length = 500, include_key_points = True,
       summary_style = py ''comprehensive'' \<rparr>"

definition reader_defaults :: PDFReaderConfig where
  "reader_defaults =
     \<lparr> reader_description = py ''Reads a PDF file and extracts text content'',
       max_pages = None \<rparr>"

text \<open>A text of 10001 characters \<open>Z\<close>, and a response carrying a summary.\<close>

definition long_text :: pystr where
  "long_text = replicate 10001 90"

definition summary_response :: response where
  "summary_response =
     Response (Some (VStr (py ''A short summary.''))) (py ''content=A short summary.'')"

text \<open>
  Three documents: one whose second page is blank, one with blank pages only, one whose
  second page cannot be loaded; and a file system that holds them. In it the empty path
  resolves to the current directory, so that \<open>exists()\<close> is \<open>True\<close> for it, and
  \<open>fitz.open\<close> makes a new document without pages of it.
\<close>

definition three_page_doc :: document where
  "three_page_doc = [Inr (py ''Alpha''), Inr [32, NL], Inr (py ''Gamma'')]"

definition blank_doc :: document where
  "blank_doc = [Inr [], Inr (py ''  '')]"

definition broken_doc :: document where
  "broken_doc =
     [Inr (py ''Intro''),
      Inl (Exn (OtherException (py ''FzErrorFormat'')) (py ''cannot load page''))]"

definition example_env :: environment where
  "example_env =
     \<lparr> fitz_installed = True,
       path_exists =
         (\<lambda>p. Inr (p = py ''report.pdf'' \<or> p = py ''blank.pdf'' \<or> p = py ''broken.pdf''
                      \<or> p = [])),
       fitz_open =
         (\<lambda>p. if p = py ''report.pdf'' then Inr three_page_doc
              else if p = py ''blank.pdf'' then Inr blank_doc
              else if p = py ''broken.pdf'' then Inr broken_doc
              else if p = [] then Inr []
              else Inl (Exn (OtherException (py ''FileNotFoundError'')) (py ''no such file''))) \<rparr>"

text \<open>A language model that answers every prompt with the same response.\<close>

definition example_llm :: "pystr \<Rightarrow> exn + response" where
  "example_llm prompt = Inr summary_response"

section \<open>Facts about the prompt\<close>

lemma style_instruction_eq:
  "style_instruction config =
     Inr (dict_get style_instructions (summary_style config)
            (py ''Create a comprehensive summary that captures all major points.''))"
  by (simp add: style_instruction_def dict_index_def style_instructions_def py_def)

lemma build_prompt_eq:
  "build_prompt config text =
     Inr (prompt_head config
            (dict_get style_instructions (summary_style config)
               (py ''Create a comprehensive summary that captures all major points.''))
          @ take 10000 text @ excerpt_line_rest @ truncation_marker text @ prompt_tail)"
  by (simp add: build_prompt_def style_instruction_eq)

lemma sublist_run_aligned:
  assumes pre: "x \<notin> set pre" and post: "x \<notin> set post" and n: "0 < n"
    and sub: "sublist (replicate n x @ m) (pre @ replicate n x @ post)"
  shows "prefix m post"
proof -
  from sub obtain ps ss where eq: "pre @ replicate n x @ post = ps @ (replicate n x @ m) @ ss"
    by (auto simp: sublist_def)
  have "filter ((=) x) pre = []" "filter ((=) x) post = []"
    using pre post by (auto simp: filter_empty_conv)
  then have "length (filter ((=) x) (pre @ replicate n x @ post)) = n"
    by simp
  moreover have "length (filter ((=) x) (ps @ (replicate n x @ m) @ ss)) =
      length (filter ((=) x) ps) + n + length (filter ((=) x) m) + length (filter ((=) x) ss)"
    by simp
  ultimately have "filter ((=) x) ps = []" using eq by simp
  then have ps: "\<And>c. c \<in> set ps \<Longrightarrow> c \<noteq> x" by (auto simp: filter_empty_conv)
  have pre': "\<And>c. c \<in> set pre \<Longrightarrow> c \<noteq> x" using pre by auto
  obtain k where k: "n = Suc k" using n by (cases n) auto
  have "dropWhile (\<lambda>c. c \<noteq> x) (pre @ replicate n x @ post) = replicate n x @ post"
    using pre' by (simp add: dropWhile_append2 k)
  moreover have "dropWhile (\<lambda>c. c \<noteq> x) (ps @ (replicate n x @ m) @ ss) = replicate n x @ m @ ss"
    using ps by (simp add: dropWhile_append2 k)
  ultimately have "post = m @ ss" using eq by simp
  then show ?thesis by simp
qed

lemma str_int_500: "str_int 500 = [53, 48, 48]"
  by (simp add: str_int_def str_nat.simps)

lemma head_no_Z: "90 \<notin> set (prompt_head default_config (py ''Create a comprehensive summary that captures all major points.''))"
  by (simp add: prompt_head_def default_config_def key_points_instruction_def key_points_format_def py_def NL_def str_int_500)

section \<open>Facts about the page loop\<close>

lemma strip_empty_iff: "strip s = [] \<longleftrightarrow> (\<forall>c\<in>set s. is_space c)"
proof
  assume "strip s = []"
  then have all: "\<forall>c\<in>set (dropWhile is_space s). is_space c"
    by (simp add: strip_def dropWhile_eq_Nil_conv)
  have "dropWhile is_space s = []"
  proof (rule ccontr)
    assume ne: "dropWhile is_space s \<noteq> []"
    then have "\<not> is_space (hd (dropWhile is_space s))" by (rule hd_dropWhile)
    moreover have "hd (dropWhile is_space s) \<in> set (dropWhile is_space s)" using ne by simp
    ultimately show False using all by blast
  qed
  then show "\<forall>c\<in>set s. is_space c" by (simp add: dropWhile_eq_Nil_conv)
next
  assume "\<forall>c\<in>set s. is_space c"
  then have d: "dropWhile is_space s = []" by (simp add: dropWhile_eq_Nil_conv)
  show "strip s = []" unfolding strip_def d by simp
qed

lemma scan_pages_ok:
  assumes "\<forall>i\<in>set ns. i < length doc \<and> (\<exists>t. doc ! i = Inr t)"
  shows "scan_pages doc ns acc =
    (Inr (acc @ map (\<lambda>i. page_block i (projr (doc ! i)))
                  (filter (\<lambda>i. strip (projr (doc ! i)) \<noteq> []) ns)),
     map PageRead ns)"
  using assms
proof (induction ns arbitrary: acc)
  case Nil
  then show ?case by simp
next
  case (Cons n ns)
  then obtain t where t: "doc ! n = Inr t" and n: "n < length doc" by auto
  from Cons.prems have rest: "\<forall>i\<in>set ns. i < length doc \<and> (\<exists>t. doc ! i = Inr t)" by simp
  show ?case using t n Cons.IH[OF rest] by simp
qed

lemma page_range_length: "length (page_range config doc) \<le> length doc"
  by (simp add: page_range_def)

lemma page_range_upt: "page_range config doc = [0..<length (page_range config doc)]"
  by (simp add: page_range_def)

lemma scan_document_ok:
  assumes "take (length (page_range config doc)) doc = map Inr texts"
  shows "scan_document config doc =
    (Inr (map (\<lambda>(i, t). page_block i t) (filter (\<lambda>(i, t). strip t \<noteq> []) (enumerate 0 texts))),
     map PageRead (page_range config doc))"
proof -
  let ?m = "length (page_range config doc)"
  have m: "?m \<le> length doc" by (rule page_range_length)
  have len: "length texts = ?m" using arg_cong[OF assms, of length] m by simp
  have nth: "\<And>i. i < ?m \<Longrightarrow> doc ! i = Inr (texts ! i)"
  proof -
    fix i assume i: "i < ?m"
    have "doc ! i = take ?m doc ! i" using i by simp
    also have "\<dots> = Inr (texts ! i)" using i len by (simp add: assms)
    finally show "doc ! i = Inr (texts ! i)" .
  qed
  have pre: "\<forall>i\<in>set [0..<?m]. i < length doc \<and> (\<exists>t. doc ! i = Inr t)"
    using nth m by auto
  have en: "enumerate 0 texts = map (\<lambda>i. (i, texts ! i)) [0..<?m]"
    using len by (auto intro!: nth_equalityI simp: nth_enumerate_eq)
  have "scan_pages doc [0..<?m] [] =
    (Inr (map (\<lambda>i. page_block i (projr (doc ! i)))
                  (filter (\<lambda>i. strip (projr (doc ! i)) \<noteq> []) [0..<?m])),
     map PageRead [0..<?m])"
    using scan_pages_ok[OF pre, of "[]"] by simp
  moreover have "filter (\<lambda>i. strip (projr (doc ! i)) \<noteq> []) [0..<?m] = filter (\<lambda>i. strip (texts ! i) \<noteq> []) [0..<?m]"
    by (rule filter_cong) (auto simp: nth)
  moreover have "map (\<lambda>i. page_block i (projr (doc ! i))) (filter (\<lambda>i. strip (texts ! i) \<noteq> []) [0..<?m])
     = map (\<lambda>i. page_block i (texts ! i)) (filter (\<lambda>i. strip (texts ! i) \<noteq> []) [0..<?m])"
    by (rule map_cong) (auto simp: nth)
  ultimately show ?thesis
    unfolding scan_document_def en
    using page_range_upt[of config doc]
    by (simp add: filter_map comp_def)
qed

lemma join_blocks_not_blank:
  "strip (join sep (page_block i t # bs)) \<noteq> []"
proof -
  have "45 \<in> set (join sep (page_block i t # bs))"
    by (cases bs) (simp_all add: page_block_def py_def)
  moreover have "\<not> is_space 45" by (simp add: is_space_def)
  ultimately show ?thesis by (auto simp: strip_empty_iff)
qed

lemma llm_prompts_reads: "llm_prompts (map PageRead ns @ evs) = llm_prompts evs"
  by (induction ns) simp_all

lemma open_documents_reads: "open_documents (map PageRead ns @ evs) k = open_documents evs k"
  by (induction ns) simp_all

lemma read_pdf_ok:
  assumes "fitz_installed env" "path_exists env pdf_path = Inr True" "fitz_open env pdf_path = Inr doc"
    and "take (length (page_range config doc)) doc = map Inr texts"
  shows "read_pdf env config pdf_path =
    (let blocks = map (\<lambda>(i, t). page_block i t)
                      (filter (\<lambda>(i, t). strip t \<noteq> []) (enumerate 0 texts))
     in (Inr (if blocks = [] then no_text_message else join [NL, NL] blocks),
         DocOpened pdf_path # map PageRead (page_range config doc) @ [DocClosed]))"
proof -
  let ?blocks = "map (\<lambda>(i, t). page_block i t)
                      (filter (\<lambda>(i, t). strip t \<noteq> []) (enumerate 0 texts))"
  have blank: "strip (join [NL, NL] ?blocks) = [] \<longleftrightarrow> ?blocks = []"
  proof (cases "filter (\<lambda>(i, t). strip t \<noteq> []) (enumerate 0 texts)")
    case Nil
    then show ?thesis by (simp add: strip_def)
  next
    case (Cons a as)
    obtain i t where a: "a = (i, t)" by (cases a)
    show ?thesis using join_blocks_not_blank[of "[NL, NL]" i t] by (simp add: Cons a)
  qed
  show ?thesis
    using assms(1-3) blank
    by (simp add: read_pdf_def read_pdf_try_def scan_document_ok[OF assms(4)] Let_def)
qed

lemma count_enumerate_filter:
  "length (filter (\<lambda>(i, t). P t) (enumerate n xs)) = length (filter P xs)"
  by (induction xs arbitrary: n) simp_all

lemma str_int_small: "str_int 1 = [49]" "str_int 2 = [50]" "str_int 3 = [51]"
  by (simp_all add: str_int_def str_nat.simps)

text \<open>
  The summarizer treats the reader's sentinel like any other text: it embeds it whole, and
  whenever the prompt is built the backend is invoked once with it, whatever the backend
  answers.
\<close>

lemma sentinel_embedded:
  "\<exists>prompt. build_prompt config no_text_message = Inr prompt \<and> sublist no_text_message prompt"
proof -
  have "take 10000 no_text_message = no_text_message"
    by (simp add: no_text_message_def py_def)
  then have "build_prompt config no_text_message =
     Inr (prompt_head config
            (dict_get style_instructions (summary_style config)
               (py ''Create a comprehensive summary that captures all major points.''))
          @ no_text_message @ excerpt_line_rest @ truncation_marker no_text_message @ prompt_tail)"
    by (simp add: build_prompt_eq)
  then show ?thesis by (auto simp: sublist_def)
qed

lemma summarize_text_invokes:
  assumes "build_prompt config text = Inr prompt"
  shows "snd (summarize_text config ainvoke text) = [LLMInvoked prompt]"
  using assms
  by (auto simp: summarize_text_def summarize_text_try_def Let_def
        split: sum.splits prod.splits)

text \<open>
  Paths that name no file and still pass the test of line 65: the empty path is opened and
  gives the sentinel. When \<open>exists()\<close> itself raises, its message is what
  \<open>read_pdf\<close> reports.
\<close>

lemma empty_path_is_opened:
  "path_exists example_env [] = Inr True
   \<and> read_pdf example_env reader_defaults [] = (Inr no_text_message, [DocOpened [], DocClosed])"
  by (simp add: read_pdf_def read_pdf_try_def example_env_def reader_defaults_def py_def
        scan_document_def page_range_def max_pages_or_len_def strip_def)

lemma path_check_failure:
  assumes "fitz_installed env" and "path_exists env pdf_path = Inl e"
    and "is_exception (cls e)" and "cls e \<noteq> ImportError"
  shows "read_pdf env config pdf_path =
    (Inl (Exn RuntimeError (py ''Error reading PDF: '' @ msg e)), [])"
  using assms by (simp add: read_pdf_def read_pdf_try_def)

section \<open>Claims about the summarizer\<close>

text \<open>
  Claim C1, as amended. The prompt embeds the first 10,000 characters of the text and no
  more. The marker \<open>...\<close> stands on the line after the one that holds the excerpt
  exactly when the text is longer than 10,000 characters, and that line is empty
  otherwise. Excerpt and marker are not adjacent: the rest of the excerpt's line (\<open>mid\<close>,
  the same for every text) and a line break lie between them.
\<close>

theorem marker_on_line_after_excerpt:
  "\<exists>style mid. NL \<notin> set mid \<and>
     (\<forall>text. build_prompt config text =
        Inr (prompt_head config style @ take 10000 text @ mid @ [NL]
             @ (if 10000 < length text then py ''...'' else []) @ prompt_tail))"
proof -
  let ?mid = "py ''  # Limit input to avoid token limits''"
  have "NL \<notin> set ?mid" by (simp add: py_def NL_def)
  moreover have "\<forall>text. build_prompt config text =
        Inr (prompt_head config (dict_get style_instructions (summary_style config)
               (py ''Create a comprehensive summary that captures all major points.'')) @ take 10000 text @ ?mid @ [NL]
             @ (if 10000 < length text then py ''...'' else []) @ prompt_tail)"
    by (simp add: build_prompt_eq excerpt_line_rest_def truncation_marker_def)
  ultimately show ?thesis by blast
qed

text \<open>
  C1 as stated fails: for a text of 10,001 characters the excerpt followed at once by
  \<open>...\<close> occurs nowhere in the prompt.
\<close>

theorem marker_not_adjacent_counterexample:
  "10000 < length long_text \<and> \<not> isl (build_prompt default_config long_text) \<and>
   \<not> sublist (take 10000 long_text @ py ''...'') (projr (build_prompt default_config long_text))"
proof -
  let ?st = "py ''Create a comprehensive summary that captures all major points.''"
  let ?pre = "prompt_head default_config ?st"
  let ?post = "excerpt_line_rest @ truncation_marker long_text @ prompt_tail"
  have bp: "build_prompt default_config long_text = Inr (?pre @ replicate 10000 90 @ ?post)"
    by (simp add: build_prompt_eq long_text_def default_config_def dict_get_def style_instructions_def py_def)
  have post: "90 \<notin> set ?post"
    by (simp add: excerpt_line_rest_def truncation_marker_def prompt_tail_def py_def NL_def)
  have np: "\<not> prefix (py ''...'') ?post"
    by (simp add: excerpt_line_rest_def py_def)
  have "\<not> sublist (replicate 10000 90 @ py ''...'') (?pre @ replicate 10000 90 @ ?post)"
    using sublist_run_aligned[OF head_no_Z post, of 10000 "py ''...''"] np by auto
  then show ?thesis using bp by (simp add: long_text_def)
qed

text \<open>
  Claim C9. For every text and configuration the prompt carries the characters
  \<open>  # Limit input to avoid token limits\<close> on the excerpt's line, between the excerpt
  and the line of the truncation marker, whether or not the text was truncated.
\<close>

theorem comment_text_sent_in_prompt:
  "\<exists>style. build_prompt config text =
      Inr (prompt_head config style @ take 10000 text
           @ py ''  # Limit input to avoid token limits'' @ [NL]
           @ truncation_marker text @ prompt_tail)"
  using build_prompt_eq[of config "text"] by (auto simp: excerpt_line_rest_def)

text \<open>
  Claim C7. A style that is none of \<open>brief\<close>, \<open>comprehensive\<close>, \<open>detailed\<close> gives
  the instruction clause of \<open>comprehensive\<close>, without failing, and with every other
  field and the text fixed the prompt is the one built for \<open>comprehensive\<close>.
\<close>

theorem unrecognized_style_is_comprehensive:
  assumes "summary_style config \<notin> {py ''brief'', py ''comprehensive'', py ''detailed''}"
  shows "style_instruction config =
           Inr (py ''Create a comprehensive summary that captures all major points.'')
       \<and> style_instruction config = style_instruction (config\<lparr>summary_style := py ''comprehensive''\<rparr>)
       \<and> build_prompt config text = build_prompt (config\<lparr>summary_style := py ''comprehensive''\<rparr>) text"
proof -
  have a: "style_instruction config =
           Inr (py ''Create a comprehensive summary that captures all major points.'')"
    using assms by (simp add: style_instruction_eq dict_get_def style_instructions_def)
  have b: "style_instruction (config\<lparr>summary_style := py ''comprehensive''\<rparr>) =
           Inr (py ''Create a comprehensive summary that captures all major points.'')"
    by (simp add: style_instruction_eq dict_get_def style_instructions_def py_def)
  have c: "prompt_head (config\<lparr>summary_style := py ''comprehensive''\<rparr>) = prompt_head config"
    by (rule ext) (simp add: prompt_head_def key_points_instruction_def key_points_format_def)
  show ?thesis using a b c by (simp add: build_prompt_def)
qed

text \<open>The style \<open>extreme\<close> is such a style.\<close>

theorem unrecognized_style_witness:
  "py ''extreme'' \<notin> {py ''brief'', py ''comprehensive'', py ''detailed''}
   \<and> style_instruction (default_config\<lparr>summary_style := py ''extreme''\<rparr>) =
       Inr (py ''Create a comprehensive summary that captures all major points.'')
   \<and> build_prompt (default_config\<lparr>summary_style := py ''extreme''\<rparr>) (py ''Some text.'') =
     build_prompt (default_config\<lparr>summary_style := py ''comprehensive''\<rparr>) (py ''Some text.'')"
proof -
  have h: "summary_style (default_config\<lparr>summary_style := py ''extreme''\<rparr>) \<notin> {py ''brief'', py ''comprehensive'', py ''detailed''}"
    by (simp add: py_def)
  show ?thesis
    using h unrecognized_style_is_comprehensive[OF h, of "py ''Some text.''"] by simp
qed

text \<open>
  Claim C8. Normalization returns the response's \<open>content\<close> when the response has
  one, and the string coercion of the whole value otherwise. For a response of a shape
  the backend may produce the result is a string, and \<open>summarize_text\<close> returns it
  without failing.
\<close>

theorem response_normalization:
  "(case content_attr r of Some v \<Rightarrow> extract_content r = v
                         | None \<Rightarrow> extract_content r = VStr (str_repr r))
   \<and> (legal_response r \<longrightarrow> (\<exists>s. extract_content r = VStr s))
   \<and> (build_prompt config text = Inr prompt \<and> ainvoke prompt = Inr r \<and> legal_response r \<longrightarrow>
        summarize_text config ainvoke text = (Inr (extract_content r), [LLMInvoked prompt]))"
  by (auto simp: extract_content_def legal_response_def summarize_text_def summarize_text_try_def
        py_len_def Let_def split: option.splits pyval.splits sum.splits)

text \<open>A response whose \<open>content\<close> is a summary.\<close>

theorem response_normalization_witness:
  "legal_response summary_response
   \<and> extract_content summary_response = VStr (py ''A short summary.'')
   \<and> fst (summarize_text default_config (\<lambda>_. Inr summary_response) (py ''Some text.'')) =
       Inr (VStr (py ''A short summary.''))"
proof -
  have l: "legal_response summary_response"
    by (simp add: legal_response_def summary_response_def)
  obtain prompt where p: "build_prompt default_config (py ''Some text.'') = Inr prompt"
    using build_prompt_eq by blast
  have e: "extract_content summary_response = VStr (py ''A short summary.'')"
    by (simp add: extract_content_def summary_response_def)
  show ?thesis
    using l p e response_normalization[of summary_response default_config "py ''Some text.''" prompt "\<lambda>_. Inr summary_response"]
    by simp
qed

section \<open>Claims about the PDF reader\<close>

text \<open>
  Claim C2, as amended. For every path for which \<open>Path(pdf_path).exists()\<close> returns
  \<open>False\<close>, \<open>read_pdf\<close> fails with a \<open>RuntimeError\<close>, the class of every
  failure it reports; the missing file shows in the message only
  (\<open>Error reading PDF: PDF file not found:\<close> followed by the path, or the message about
  PyMuPDF when the import fails first). The document is not opened and no backend is
  invoked in that call.
\<close>

theorem missing_file_failure:
  assumes "path_exists env pdf_path = Inr False"
  shows "read_pdf env config pdf_path =
    (Inl (Exn RuntimeError
       (if fitz_installed env then py ''Error reading PDF: PDF file not found: '' @ pdf_path
        else py ''PyMuPDF not installed. Please install with: pip install PyMuPDF'')), [])"
  using assms by (simp add: read_pdf_def read_pdf_try_def py_def)

text \<open>
  C2 as stated fails: for a missing file the caller does not receive the exception
  raised at line 66, and the class it receives is the class received for a document that
  cannot be parsed.
\<close>

theorem missing_file_counterexample:
  "path_exists example_env (py ''missing.pdf'') = Inr False
   \<and> fst (read_pdf example_env reader_defaults (py ''missing.pdf'')) \<noteq>
       Inl (Exn FileNotFoundError (py ''PDF file not found: missing.pdf''))
   \<and> cls (projl (fst (read_pdf example_env reader_defaults (py ''missing.pdf'')))) = RuntimeError
   \<and> cls (projl (fst (read_pdf example_env reader_defaults (py ''broken.pdf'')))) = RuntimeError"
  by (simp add: read_pdf_def read_pdf_try_def example_env_def reader_defaults_def py_def
        scan_document_def page_range_def max_pages_or_len_def broken_doc_def strip_def is_space_def
        upt_conv_Cons)

text \<open>The path \<open>missing.pdf\<close> does not exist in the example file system.\<close>

theorem missing_file_failure_witness:
  "path_exists example_env (py ''missing.pdf'') = Inr False
   \<and> read_pdf example_env reader_defaults (py ''missing.pdf'') =
       (Inl (Exn RuntimeError (py ''Error reading PDF: PDF file not found: missing.pdf'')), [])"
proof -
  have h: "path_exists example_env (py ''missing.pdf'') = Inr False"
    by (simp add: example_env_def py_def)
  have i: "fitz_installed example_env" by (simp add: example_env_def)
  show ?thesis
    using h i missing_file_failure[OF h, of reader_defaults] by (simp add: py_def)
qed

text \<open>
  Claim C3 asks that the handle be closed on every exit path. When a page cannot be
  loaded, \<open>read_pdf\<close> leaves with a \<open>RuntimeError\<close> after opening the document and
  without closing it: \<open>doc.close()\<close> is reached on the normal path only.
\<close>

theorem handle_left_open_on_page_fault:
  "read_pdf example_env reader_defaults (py ''broken.pdf'') =
     (Inl (Exn RuntimeError (py ''Error reading PDF: cannot load page'')),
      [DocOpened (py ''broken.pdf''), PageRead 0, PageRead 1])
   \<and> open_documents (snd (read_pdf example_env reader_defaults (py ''broken.pdf''))) 0 = 1"
  by (simp add: read_pdf_def read_pdf_try_def example_env_def reader_defaults_def py_def
        scan_document_def page_range_def max_pages_or_len_def broken_doc_def strip_def is_space_def
        upt_conv_Cons)

text \<open>
  Claim C4, as amended. When every scanned page extracts to empty or whitespace-only
  text, \<open>read_pdf\<close> returns the sentinel \<open>No text content found in PDF\<close> as its
  result, not an exception and not the empty string, having opened the document, read the
  scanned pages and closed it. Nothing short-circuits on the sentinel: handed to
  \<open>summarize_text\<close>, it is embedded in a prompt like any other text and the backend is
  invoked once with that prompt, whatever the configuration and the backend.
\<close>

theorem blank_document_sentinel_not_short_circuited:
  assumes "fitz_installed env" "path_exists env pdf_path = Inr True" "fitz_open env pdf_path = Inr doc"
    and "take (length (page_range config doc)) doc = map Inr texts"
    and "\<forall>t\<in>set texts. strip t = []"
  shows "read_pdf env config pdf_path =
           (Inr no_text_message,
            DocOpened pdf_path # map PageRead (page_range config doc) @ [DocClosed])
       \<and> no_text_message = py ''No text content found in PDF''
       \<and> no_text_message \<noteq> []
       \<and> (\<exists>prompt. build_prompt summarizer_config no_text_message = Inr prompt
             \<and> sublist no_text_message prompt
             \<and> snd (summarize_text summarizer_config ainvoke no_text_message) =
                 [LLMInvoked prompt])"
proof -
  have "filter (\<lambda>(i, t). strip t \<noteq> []) (enumerate 0 texts) = []"
    using assms(5) by (auto simp: filter_empty_conv in_set_enumerate_eq)
  then have r: "read_pdf env config pdf_path =
           (Inr no_text_message,
            DocOpened pdf_path # map PageRead (page_range config doc) @ [DocClosed])"
    using read_pdf_ok[OF assms(1-4)] by simp
  have s: "no_text_message = py ''No text content found in PDF''" "no_text_message \<noteq> []"
    by (simp_all add: no_text_message_def py_def)
  obtain prompt where p: "build_prompt summarizer_config no_text_message = Inr prompt"
    and sub: "sublist no_text_message prompt"
    using sentinel_embedded by blast
  have "snd (summarize_text summarizer_config ainvoke no_text_message) = [LLMInvoked prompt]"
    using p by (rule summarize_text_invokes)
  then show ?thesis using r s p sub by blast
qed

text \<open>
  C4 as stated fails: a document of blank pages gives the sentinel, and the summarizer
  given the sentinel invokes the backend.
\<close>

theorem sentinel_reaches_backend_counterexample:
  "fst (read_pdf example_env reader_defaults (py ''blank.pdf'')) = Inr no_text_message
   \<and> llm_prompts (snd (summarize_text default_config example_llm no_text_message)) \<noteq> []"
proof -
  have a: "fitz_installed example_env" by (simp add: example_env_def)
  have b: "path_exists example_env (py ''blank.pdf'') = Inr True"
    by (simp add: example_env_def)
  have c: "fitz_open example_env (py ''blank.pdf'') = Inr blank_doc"
    by (simp add: example_env_def py_def)
  have r: "page_range reader_defaults blank_doc = [0, 1]"
    by (simp add: page_range_def max_pages_or_len_def reader_defaults_def blank_doc_def upt_conv_Cons)
  have d: "take (length (page_range reader_defaults blank_doc)) blank_doc = map Inr [[], py ''  '']"
    unfolding r by (simp add: blank_doc_def)
  have e: "filter (\<lambda>(i, t). strip t \<noteq> []) (enumerate 0 [[], py ''  '']) = []"
    by (simp add: strip_def is_space_def py_def)
  have one: "fst (read_pdf example_env reader_defaults (py ''blank.pdf'')) = Inr no_text_message"
    using read_pdf_ok[OF a b c d] unfolding e by simp
  obtain prompt where p: "build_prompt default_config no_text_message = Inr prompt"
    using sentinel_embedded by blast
  have "snd (summarize_text default_config example_llm no_text_message) = [LLMInvoked prompt]"
    using p by (rule summarize_text_invokes)
  then show ?thesis using one by simp
qed

text \<open>A document of two blank pages, and the summarizer's default configuration.\<close>

theorem blank_document_witness:
  "fitz_installed example_env \<and> path_exists example_env (py ''blank.pdf'') = Inr True
   \<and> fitz_open example_env (py ''blank.pdf'') = Inr blank_doc
   \<and> take (length (page_range reader_defaults blank_doc)) blank_doc = map Inr [[], py ''  '']
   \<and> strip [] = [] \<and> strip (py ''  '') = []
   \<and> read_pdf example_env reader_defaults (py ''blank.pdf'') =
        (Inr (py ''No text content found in PDF''),
         [DocOpened (py ''blank.pdf''), PageRead 0, PageRead 1, DocClosed])
   \<and> (\<exists>prompt. sublist (py ''No text content found in PDF'') prompt
         \<and> snd (summarize_text default_config example_llm (py ''No text content found in PDF'')) =
             [LLMInvoked prompt])"
proof -
  have a: "fitz_installed example_env" by (simp add: example_env_def)
  have b: "path_exists example_env (py ''blank.pdf'') = Inr True"
    by (simp add: example_env_def)
  have c: "fitz_open example_env (py ''blank.pdf'') = Inr blank_doc"
    by (simp add: example_env_def py_def)
  have r: "page_range reader_defaults blank_doc = [0, 1]"
    by (simp add: page_range_def max_pages_or_len_def reader_defaults_def blank_doc_def upt_conv_Cons)
  have d: "take (length (page_range reader_defaults blank_doc)) blank_doc = map Inr [[], py ''  '']"
    unfolding r by (simp add: blank_doc_def)
  have e: "\<forall>t\<in>set [[], py ''  '']. strip t = []"
    by (simp add: strip_def is_space_def py_def)
  have n: "no_text_message = py ''No text content found in PDF''"
    by (simp add: no_text_message_def)
  show ?thesis
    using a b c d e
      blank_document_sentinel_not_short_circuited[OF a b c d e, of default_config example_llm]
    unfolding r n by auto
qed

text \<open>
  Claim C5. With \<open>max_pages = K\<close>, \<open>K \<ge> 1\<close>, and the first \<open>K\<close> pages of the
  document readable, exactly the first \<open>min(N, K)\<close> pages are scanned, and the number of
  blocks is \<open>min(K, number of non-blank pages among the first K)\<close>.
\<close>

theorem page_block_count:
  assumes "max_pages config = Some K" and "1 \<le> K" and "take (nat K) doc = map Inr texts"
  shows "\<exists>blocks. scan_document config doc =
            (Inr blocks, map PageRead [0..<min (length doc) (nat K)])
          \<and> int (length blocks) = min K (int (length (filter (\<lambda>t. strip t \<noteq> []) texts)))"
proof -
  have pr: "page_range config doc = [0..<min (length doc) (nat K)]"
    using assms(1,2) by (simp add: page_range_def max_pages_or_len_def min_def) 
  have "take (min (length doc) (nat K)) doc = take (nat K) doc"
    by (simp add: min_def)
  then have tk: "take (length (page_range config doc)) doc = map Inr texts"
    using assms(3) by (simp add: pr)
  have len: "length texts \<le> nat K"
    using arg_cong[OF assms(3), of length] by simp
  have "length (filter (\<lambda>t. strip t \<noteq> []) texts) \<le> length texts" by simp
  then have le: "int (length (filter (\<lambda>t. strip t \<noteq> []) texts)) \<le> K"
    using len assms(2) by linarith
  show ?thesis
    using scan_document_ok[OF tk] le
    by (simp add: pr count_enumerate_filter min_def)
qed

text \<open>Three pages, the second blank, and \<open>max_pages = 2\<close>: one block.\<close>

theorem page_block_count_witness:
  "max_pages (reader_defaults\<lparr>max_pages := Some 2\<rparr>) = Some 2 \<and> (1::int) \<le> 2
   \<and> take (nat 2) three_page_doc = map Inr [py ''Alpha'', [32, NL]]
   \<and> (\<exists>blocks. scan_document (reader_defaults\<lparr>max_pages := Some 2\<rparr>) three_page_doc =
          (Inr blocks, [PageRead 0, PageRead 1]) \<and> length blocks = 1)"
proof -
  have a: "max_pages (reader_defaults\<lparr>max_pages := Some 2\<rparr>) = Some 2" by simp
  have b: "(1::int) \<le> 2" by simp
  have c: "take (nat 2) three_page_doc = map Inr [py ''Alpha'', [32, NL]]"
    by (simp add: three_page_doc_def)
  have n: "length (filter (\<lambda>t. strip t \<noteq> []) [py ''Alpha'', [32, NL]]) = 1"
    by (simp add: strip_def is_space_def py_def NL_def)
  show ?thesis
    using a b c page_block_count[OF a b c]
    by (simp add: n three_page_doc_def upt_conv_Cons del: filter.simps)
qed

text \<open>
  Claim C6. Pages whose text is empty or whitespace-only give no block. Every other
  scanned page gives one block, its text behind the marker \<open>--- Page N ---\<close> where
  \<open>N\<close> is the page's own 1-based number, and the blocks are joined in page order.
\<close>

theorem blank_pages_skipped_numbers_kept:
  assumes "fitz_installed env" "path_exists env pdf_path = Inr True" "fitz_open env pdf_path = Inr doc"
    and "take (length (page_range config doc)) doc = map Inr texts"
  shows "\<exists>blocks.
      blocks = map (\<lambda>(i, t). py ''--- Page '' @ str_int (int i + 1) @ py '' ---'' @ [NL] @ t)
                   (filter (\<lambda>(i, t). strip t \<noteq> []) (enumerate 0 texts))
    \<and> fst (scan_document config doc) = Inr blocks
    \<and> fst (read_pdf env config pdf_path) =
         Inr (if blocks = [] then no_text_message else join [NL, NL] blocks)"
proof -
  have pb: "(\<lambda>(i, t). page_block i t) =
      (\<lambda>(i, t). py ''--- Page '' @ str_int (int i + 1) @ py '' ---'' @ [NL] @ t)"
    by (simp add: page_block_def fun_eq_iff)
  show ?thesis
    using read_pdf_ok[OF assms] scan_document_ok[OF assms(4)]
    by (simp add: pb Let_def)
qed

text \<open>Three pages, the second blank, no page limit: the blocks of pages 1 and 3.\<close>

theorem blank_pages_skipped_witness:
  "fitz_installed example_env \<and> path_exists example_env (py ''report.pdf'') = Inr True
   \<and> fitz_open example_env (py ''report.pdf'') = Inr three_page_doc
   \<and> take (length (page_range reader_defaults three_page_doc)) three_page_doc =
        map Inr [py ''Alpha'', [32, NL], py ''Gamma'']
   \<and> fst (scan_document reader_defaults three_page_doc) =
        Inr [py ''--- Page 1 ---'' @ [NL] @ py ''Alpha'', py ''--- Page 3 ---'' @ [NL] @ py ''Gamma'']
   \<and> fst (read_pdf example_env reader_defaults (py ''report.pdf'')) =
        Inr (py ''--- Page 1 ---'' @ [NL] @ py ''Alpha'' @ [NL, NL]
             @ py ''--- Page 3 ---'' @ [NL] @ py ''Gamma'')"
proof -
  have a: "fitz_installed example_env" by (simp add: example_env_def)
  have b: "path_exists example_env (py ''report.pdf'') = Inr True"
    by (simp add: example_env_def)
  have c: "fitz_open example_env (py ''report.pdf'') = Inr three_page_doc"
    by (simp add: example_env_def)
  have r: "page_range reader_defaults three_page_doc = [0, 1, 2]"
    by (simp add: page_range_def max_pages_or_len_def reader_defaults_def three_page_doc_def upt_conv_Cons)
  have d: "take (length (page_range reader_defaults three_page_doc)) three_page_doc =
        map Inr [py ''Alpha'', [32, NL], py ''Gamma'']"
    unfolding r by (simp add: three_page_doc_def)
  show ?thesis
    using a b c d blank_pages_skipped_numbers_kept[OF a b c d]
    by (simp add: enumerate_eq_zip upt_conv_Cons str_int_small py_def strip_def is_space_def NL_def)
qed

text \<open>
  Claim C10. With \<open>max_pages = 0\<close> every page of the document is scanned, and
  \<open>read_pdf\<close> does what it does with no page limit.
\<close>

theorem zero_max_pages_scans_every_page:
  assumes "max_pages config = Some 0"
  shows "page_range config doc = [0..<length doc]
       \<and> scan_document config doc = scan_document (config\<lparr>max_pages := None\<rparr>) doc
       \<and> read_pdf env config pdf_path = read_pdf env (config\<lparr>max_pages := None\<rparr>) pdf_path"
proof -
  have a: "page_range config doc = [0..<length doc]" for doc
    using assms by (simp add: page_range_def max_pages_or_len_def)
  have b: "page_range (config\<lparr>max_pages := None\<rparr>) doc = [0..<length doc]" for doc
    by (simp add: page_range_def max_pages_or_len_def)
  have c: "scan_document config doc = scan_document (config\<lparr>max_pages := None\<rparr>) doc" for doc
    by (simp add: scan_document_def a b)
  have t: "read_pdf_try env config pdf_path =
           read_pdf_try env (config\<lparr>max_pages := None\<rparr>) pdf_path"
    by (simp add: c read_pdf_try_def split: sum.splits)
  show ?thesis
    by (simp add: a c t read_pdf_def)
qed

text \<open>Three pages and \<open>max_pages = 0\<close>: all three are read.\<close>

theorem zero_max_pages_witness:
  "max_pages (reader_defaults\<lparr>max_pages := Some 0\<rparr>) = Some 0
   \<and> page_range (reader_defaults\<lparr>max_pages := Some 0\<rparr>) three_page_doc = [0, 1, 2]
   \<and> snd (read_pdf example_env (reader_defaults\<lparr>max_pages := Some 0\<rparr>) (py ''report.pdf'')) =
       [DocOpened (py ''report.pdf''), PageRead 0, PageRead 1, PageRead 2, DocClosed]"
proof -
  have h: "max_pages (reader_defaults\<lparr>max_pages := Some 0\<rparr>) = Some 0" by simp
  have a: "fitz_installed example_env" by (simp add: example_env_def)
  have b: "path_exists example_env (py ''report.pdf'') = Inr True"
    by (simp add: example_env_def)
  have c: "fitz_open example_env (py ''report.pdf'') = Inr three_page_doc"
    by (simp add: example_env_def)
  have r: "page_range (reader_defaults\<lparr>max_pages := None\<rparr>) three_page_doc = [0, 1, 2]"
    by (simp add: page_range_def max_pages_or_len_def three_page_doc_def upt_conv_Cons)
  have d: "take (length (page_range (reader_defaults\<lparr>max_pages := None\<rparr>) three_page_doc))
             three_page_doc = map Inr [py ''Alpha'', [32, NL], py ''Gamma'']"
    unfolding r by (simp add: three_page_doc_def)
  have e: "snd (read_pdf example_env (reader_defaults\<lparr>max_pages := None\<rparr>) (py ''report.pdf'')) =
       [DocOpened (py ''report.pdf''), PageRead 0, PageRead 1, PageRead 2, DocClosed]"
    using read_pdf_ok[OF a b c d] by (simp add: r Let_def)
  show ?thesis
    using h e zero_max_pages_scans_every_page[OF h, of three_page_doc example_env "py ''report.pdf''"]
    by (simp add: three_page_doc_def upt_conv_Cons)
qed

end
